theory Spec2Isabelle
  imports Complex_Main "HOL-Library.Sublist" "HOL-Library.Product_Lexorder" "HOL-Library.Multiset"
begin

section \<open>Inventory manager: data model\<close>

text \<open>
  The development embeds the service layer of \<^verbatim>\<open>inventario_mongo_tk.py\<close>
  (the first program of the file, lines 1 to 956: the one with users and a sales
  collection). Conventions of the embedding:
  \<^item> a MongoDB collection is the list of its documents in natural (insertion) order;
    a module-level collection handle that is \<^verbatim>\<open>None\<close> is the value \<open>None\<close>;
  \<^item> documents have the fixed shape the program writes; the store-assigned
    \<^verbatim>\<open>_id\<close> is left out;
  \<^item> a Python \<^verbatim>\<open>str\<close> is a \<open>string\<close>, one \<open>char\<close> per code point (code points
    below 256); a Python \<^verbatim>\<open>int\<close> is an \<open>int\<close>;
  \<^item> the price is a Python \<^verbatim>\<open>float\<close>: a \<open>pyfloat\<close>, which is a real number or
    NaN; rounding and the infinities are not modelled;
  \<^item> integers are taken to fit the 8-byte integers of the store (the driver's
    \<^verbatim>\<open>OverflowError\<close> is not modelled);
  \<^item> every \<^verbatim>\<open>raise\<close> of the source is one constructor of \<open>error\<close>, and a function
    that can raise returns \<open>error + result\<close>;
  \<^item> the store is assumed to answer: exceptions of the driver itself are modelled
    only where the source handles them (the insertion of the sale record) and where
    the store refuses a search pattern.
\<close>

text \<open>
  A Python \<^verbatim>\<open>float\<close>. Arithmetic with NaN gives NaN, and every comparison with
  NaN is false, as in Python.
\<close>

datatype pyfloat = Num real | NaN

instantiation pyfloat :: comm_monoid_add
begin

definition zero_pyfloat :: pyfloat where
  "zero_pyfloat = Num 0"

fun plus_pyfloat :: "pyfloat \<Rightarrow> pyfloat \<Rightarrow> pyfloat" where
  "plus_pyfloat (Num a) (Num b) = Num (a + b)"
| "plus_pyfloat NaN y = NaN"
| "plus_pyfloat x NaN = NaN"

instance
proof
  fix x y z :: pyfloat
  show "0 + x = x"
    unfolding zero_pyfloat_def by (induct x) auto
  show "x + y = y + x"
  proof (cases x)
    case (Num r)
    then show ?thesis by (induct y) auto
  next
    case NaN
    then show ?thesis by (induct y) auto
  qed
  show "x + y + z = x + (y + z)"
  proof (cases x)
    case (Num r)
    then show ?thesis by (induct y; induct z) auto
  next
    case NaN
    then show ?thesis by simp
  qed
qed

end

instantiation pyfloat :: times
begin

fun times_pyfloat :: "pyfloat \<Rightarrow> pyfloat \<Rightarrow> pyfloat" where
  "times_pyfloat (Num a) (Num b) = Num (a * b)"
| "times_pyfloat NaN y = NaN"
| "times_pyfloat x NaN = NaN"

instance ..

end

instantiation pyfloat :: ord
begin

fun less_pyfloat :: "pyfloat \<Rightarrow> pyfloat \<Rightarrow> bool" where
  "less_pyfloat (Num a) (Num b) = (a < b)"
| "less_pyfloat NaN y = False"
| "less_pyfloat x NaN = False"

fun less_eq_pyfloat :: "pyfloat \<Rightarrow> pyfloat \<Rightarrow> bool" where
  "less_eq_pyfloat (Num a) (Num b) = (a \<le> b)"
| "less_eq_pyfloat NaN y = False"
| "less_eq_pyfloat x NaN = False"

instance ..

end

text \<open>The conversion of an \<^verbatim>\<open>int\<close> operand that Python makes in \<^verbatim>\<open>int * float\<close>.\<close>

definition float_of_int :: "int \<Rightarrow> pyfloat" where
  "float_of_int n = Num (of_int n)"

text \<open>\<^verbatim>\<open>not math.isnan(x)\<close>.\<close>

fun es_numero :: "pyfloat \<Rightarrow> bool" where
  "es_numero (Num x) = True"
| "es_numero NaN = False"

record producto =
  id_producto :: int
  nombre :: string
  categoria :: string
  precio :: pyfloat
  cantidad :: int
  proveedor :: string

text \<open>A naive \<^verbatim>\<open>datetime.datetime\<close>, with the fields of the Python class.\<close>

record datetime =
  year :: nat
  month :: nat
  day :: nat
  hour :: nat
  minute :: nat
  second :: nat
  microsecond :: nat

text \<open>The document \<^verbatim>\<open>doc_venta\<close>; its keys \<^verbatim>\<open>id_producto\<close>, \<^verbatim>\<open>nombre\<close> and
  \<^verbatim>\<open>cantidad\<close> are prefixed, the record \<open>producto\<close> having fields of these names.\<close>

record venta =
  venta_id_producto :: int
  venta_nombre :: string
  venta_cantidad :: int
  precio_unitario :: pyfloat
  total :: pyfloat
  fecha :: datetime
  usuario :: "string option"

record db =
  coleccion_productos :: "producto list option"
  coleccion_ventas :: "venta list option"

text \<open>
  What a call reads from outside the two collections: the clock
  (\<^verbatim>\<open>datetime.datetime.now()\<close>) and whether \<^verbatim>\<open>coleccion_ventas.insert_one\<close> raises.
\<close>

record entorno =
  ahora :: datetime
  insert_venta_falla :: bool

text \<open>
  One constructor per \<^verbatim>\<open>raise\<close>. In the source the first two are \<^verbatim>\<open>RuntimeError\<close>
  and the others \<^verbatim>\<open>ValueError\<close>, told apart by their message only:
  \<^item> \<open>SinConexion\<close>: "No hay conexion con la base de datos.";
  \<^item> \<open>SinConexionVentas\<close>: "No hay conexion con la base de datos de ventas.";
  \<^item> \<open>NombreVacio\<close>: "El nombre no puede estar vacio.";
  \<^item> \<open>CategoriaInvalida\<close>: "La categoria no es valida.";
  \<^item> \<open>PrecioNegativo\<close>: "El precio no puede ser negativo.";
  \<^item> \<open>CantidadNegativa\<close>: "La cantidad no puede ser negativa.";
  \<^item> \<open>ProveedorVacio\<close>: "El proveedor no puede estar vacio.";
  \<^item> \<open>IdDuplicado n\<close>: "Ya existe un producto con ID n.";
  \<^item> \<open>LiteralInvalido\<close>: the \<^verbatim>\<open>ValueError\<close> of \<^verbatim>\<open>int(valor)\<close>;
  \<^item> \<open>CriterioInvalido\<close>: "Criterio de busqueda no valido.";
  \<^item> \<open>ProductoNoExiste\<close>: "No existe un producto con ese ID.";
  \<^item> \<open>CantidadNoPositiva\<close>: "La cantidad vendida debe ser mayor a 0.";
  \<^item> \<open>StockInsuficiente\<close>: "No hay stock suficiente.".
  \<open>OperationFailure\<close> is the error of the driver when the store refuses a search
  pattern; the program does not catch it in \<^verbatim>\<open>buscar_producto\<close>.
\<close>

datatype error =
    SinConexion
  | SinConexionVentas
  | NombreVacio
  | CategoriaInvalida
  | PrecioNegativo
  | CantidadNegativa
  | ProveedorVacio
  | IdDuplicado int
  | LiteralInvalido
  | CriterioInvalido
  | ProductoNoExiste
  | CantidadNoPositiva
  | StockInsuficiente
  | OperationFailure

text \<open>
  The kinds of error of the specification, and the kind of each \<^verbatim>\<open>raise\<close>; the
  specification names no kind for a refused pattern.
\<close>

datatype clase_error =
    ConnectivityError
  | ValidationError
  | ConflictError
  | NotFoundError
  | InsufficientStockError
  | SinClase

fun clase :: "error \<Rightarrow> clase_error" where
  "clase SinConexion = ConnectivityError"
| "clase SinConexionVentas = ConnectivityError"
| "clase NombreVacio = ValidationError"
| "clase CategoriaInvalida = ValidationError"
| "clase PrecioNegativo = ValidationError"
| "clase CantidadNegativa = ValidationError"
| "clase ProveedorVacio = ValidationError"
| "clase (IdDuplicado n) = ConflictError"
| "clase LiteralInvalido = ValidationError"
| "clase CriterioInvalido = ValidationError"
| "clase ProductoNoExiste = NotFoundError"
| "clase CantidadNoPositiva = ValidationError"
| "clase StockInsuficiente = InsufficientStockError"
| "clase OperationFailure = SinClase"

section \<open>The store gateway\<close>

text \<open>\<^verbatim>\<open>find_one\<close>: the first document that matches, if any.\<close>

fun find_one :: "('a \<Rightarrow> bool) \<Rightarrow> 'a list \<Rightarrow> 'a option" where
  "find_one P [] = None"
| "find_one P (x # xs) = (if P x then Some x else find_one P xs)"

text \<open>\<^verbatim>\<open>update_one\<close>: the first document that matches is rewritten, the others kept.\<close>

fun update_one :: "('a \<Rightarrow> bool) \<Rightarrow> ('a \<Rightarrow> 'a) \<Rightarrow> 'a list \<Rightarrow> 'a list" where
  "update_one P f [] = []"
| "update_one P f (x # xs) = (if P x then f x # xs else x # update_one P f xs)"

text \<open>\<^verbatim>\<open>delete_one\<close>: the first document that matches is removed.\<close>

fun delete_one :: "('a \<Rightarrow> bool) \<Rightarrow> 'a list \<Rightarrow> 'a list" where
  "delete_one P [] = []"
| "delete_one P (x # xs) = (if P x then xs else x # delete_one P xs)"

text \<open>\<^verbatim>\<open>matched_count\<close> and \<^verbatim>\<open>deleted_count\<close> of a one-document operation.\<close>

definition matched_count :: "('a \<Rightarrow> bool) \<Rightarrow> 'a list \<Rightarrow> nat" where
  "matched_count P xs = (case find_one P xs of None \<Rightarrow> 0 | Some x \<Rightarrow> 1)"

text \<open>The filter \<^verbatim>\<open>{"id_producto": id_producto}\<close>.\<close>

definition por_id :: "int \<Rightarrow> producto \<Rightarrow> bool" where
  "por_id i p = (id_producto p = i)"

section \<open>Catalog operations\<close>

definition CATEGORIAS :: "string list" where
  "CATEGORIAS =
     [''Computadoras'', ''Smartphones'', ''Accesorios'', ''Perif'' @ [CHR 0xE9] @ ''ricos'']"

definition STOCK_MINIMO :: int where
  "STOCK_MINIMO = 5"

definition agregar_producto ::
  "db \<Rightarrow> int \<Rightarrow> string \<Rightarrow> string \<Rightarrow> pyfloat \<Rightarrow> int \<Rightarrow> string \<Rightarrow> error + (db \<times> producto)" where
  "agregar_producto s idp nom cat pre cant prov =
     (case coleccion_productos s of
        None \<Rightarrow> Inl SinConexion
      | Some ps \<Rightarrow>
          if nom = [] then Inl NombreVacio
          else if cat \<notin> set CATEGORIAS then Inl CategoriaInvalida
          else if pre < 0 then Inl PrecioNegativo
          else if cant < 0 then Inl CantidadNegativa
          else if prov = [] then Inl ProveedorVacio
          else
            (case find_one (por_id idp) ps of
               Some existente \<Rightarrow> Inl (IdDuplicado idp)
             | None \<Rightarrow>
                 let documento = \<lparr>id_producto = idp, nombre = nom, categoria = cat,
                                   precio = pre, cantidad = cant, proveedor = prov\<rparr>
                 in Inr (s\<lparr>coleccion_productos := Some (ps @ [documento])\<rparr>, documento)))"

text \<open>
  \<^verbatim>\<open>nuevos_datos\<close> is a dictionary from field names to values; it is modelled as the
  list of its items, each a field of the product document with a value of the field's
  type. \<^verbatim>\<open>$set\<close> writes each of them into the matched document.
\<close>

datatype campo =
    Nombre string
  | Categoria string
  | Precio pyfloat
  | Cantidad int
  | Proveedor string
  | IdProducto int

fun set_campo :: "campo \<Rightarrow> producto \<Rightarrow> producto" where
  "set_campo (Nombre v) p = p\<lparr>nombre := v\<rparr>"
| "set_campo (Categoria v) p = p\<lparr>categoria := v\<rparr>"
| "set_campo (Precio v) p = p\<lparr>precio := v\<rparr>"
| "set_campo (Cantidad v) p = p\<lparr>cantidad := v\<rparr>"
| "set_campo (Proveedor v) p = p\<lparr>proveedor := v\<rparr>"
| "set_campo (IdProducto v) p = p\<lparr>id_producto := v\<rparr>"

definition dollar_set :: "campo list \<Rightarrow> producto \<Rightarrow> producto" where
  "dollar_set nuevos_datos p = fold set_campo nuevos_datos p"

definition modificar_producto :: "db \<Rightarrow> int \<Rightarrow> campo list \<Rightarrow> error + (db \<times> bool)" where
  "modificar_producto s idp nuevos_datos =
     (case coleccion_productos s of
        None \<Rightarrow> Inl SinConexion
      | Some ps \<Rightarrow>
          Inr (s\<lparr>coleccion_productos := Some (update_one (por_id idp) (dollar_set nuevos_datos) ps)\<rparr>,
               matched_count (por_id idp) ps > 0))"

definition eliminar_producto :: "db \<Rightarrow> int \<Rightarrow> error + (db \<times> bool)" where
  "eliminar_producto s idp =
     (case coleccion_productos s of
        None \<Rightarrow> Inl SinConexion
      | Some ps \<Rightarrow>
          Inr (s\<lparr>coleccion_productos := Some (delete_one (por_id idp) ps)\<rparr>,
               matched_count (por_id idp) ps > 0))"

definition mostrar_inventario :: "db \<Rightarrow> error + producto list" where
  "mostrar_inventario s =
     (case coleccion_productos s of
        None \<Rightarrow> Inl SinConexion
      | Some ps \<Rightarrow> Inr (sort_key id_producto ps))"

section \<open>Sales\<close>

text \<open>
  The store keeps a date with millisecond precision: the driver drops the
  microseconds below a millisecond when it encodes \<^verbatim>\<open>fecha\<close>.
\<close>

definition bson_datetime :: "datetime \<Rightarrow> datetime" where
  "bson_datetime d = d\<lparr>microsecond := (microsecond d div 1000) * 1000\<rparr>"

definition realizar_venta ::
  "entorno \<Rightarrow> db \<Rightarrow> int \<Rightarrow> int \<Rightarrow> string option \<Rightarrow> error + (db \<times> pyfloat)" where
  "realizar_venta env s idp cantidad_vendida usr =
     (case coleccion_productos s of
        None \<Rightarrow> Inl SinConexion
      | Some ps \<Rightarrow>
          (case find_one (por_id idp) ps of
             None \<Rightarrow> Inl ProductoNoExiste
           | Some prd \<Rightarrow>
               let stock_actual = cantidad prd in
               if cantidad_vendida \<le> 0 then Inl CantidadNoPositiva
               else if stock_actual < cantidad_vendida then Inl StockInsuficiente
               else
                 let nuevo_stock = stock_actual - cantidad_vendida;
                     ps' = update_one (por_id idp) (\<lambda>p. p\<lparr>cantidad := nuevo_stock\<rparr>) ps;
                     tot = float_of_int cantidad_vendida * precio prd;
                     doc_venta = \<lparr>venta_id_producto = idp, venta_nombre = nombre prd,
                                  venta_cantidad = cantidad_vendida,
                                  precio_unitario = precio prd, total = tot,
                                  fecha = bson_datetime (ahora env), usuario = usr\<rparr>;
                     vs' = (case coleccion_ventas s of
                              None \<Rightarrow> None
                            | Some vs \<Rightarrow>
                                if insert_venta_falla env then Some vs
                                else Some (vs @ [doc_venta]))
                 in Inr (s\<lparr>coleccion_productos := Some ps', coleccion_ventas := vs'\<rparr>, tot)))"

section \<open>Search\<close>

text \<open>Python's \<^verbatim>\<open>ord\<close>, and \<^verbatim>\<open>str.isspace\<close> on the code points below 256.\<close>

definition ord :: "char \<Rightarrow> nat" where
  "ord c = of_char c"

definition isspace :: "char \<Rightarrow> bool" where
  "isspace c = (let n = ord c in (9 \<le> n \<and> n \<le> 13) \<or> (28 \<le> n \<and> n \<le> 32) \<or> n = 133 \<or> n = 160)"

definition strip :: "string \<Rightarrow> string" where
  "strip s = rev (dropWhile isspace (rev (dropWhile isspace s)))"

text \<open>
  \<^verbatim>\<open>int(valor)\<close> on a string: surrounding whitespace is dropped, a sign may come first,
  then decimal digits, where single underscores may separate digits. Anything else
  raises \<^verbatim>\<open>ValueError\<close> (here \<open>None\<close>). The whitespace of \<^verbatim>\<open>int\<close> is narrower than
  that of \<^verbatim>\<open>str.strip\<close>: the code points 28 to 31 are not dropped.
\<close>

definition isspace_int :: "char \<Rightarrow> bool" where
  "isspace_int c = (let n = ord c in (9 \<le> n \<and> n \<le> 13) \<or> n = 32 \<or> n = 133 \<or> n = 160)"

definition strip_int :: "string \<Rightarrow> string" where
  "strip_int s = rev (dropWhile isspace_int (rev (dropWhile isspace_int s)))"

definition isdigit :: "char \<Rightarrow> bool" where
  "isdigit c = (48 \<le> ord c \<and> ord c \<le> 57)"

definition digit_value :: "char \<Rightarrow> int" where
  "digit_value c = int (ord c) - 48"

fun leer_digitos :: "int \<Rightarrow> string \<Rightarrow> int option" where
  "leer_digitos acc [] = Some acc"
| "leer_digitos acc [c] = (if isdigit c then Some (acc * 10 + digit_value c) else None)"
| "leer_digitos acc (c # d # ds) =
     (if isdigit c then leer_digitos (acc * 10 + digit_value c) (d # ds)
      else if c = CHR ''_'' \<and> isdigit d then leer_digitos (acc * 10 + digit_value d) ds
      else None)"

definition leer_natural :: "string \<Rightarrow> int option" where
  "leer_natural s =
     (case s of
        [] \<Rightarrow> None
      | c # cs \<Rightarrow> if isdigit c then leer_digitos (digit_value c) cs else None)"

definition py_int :: "string \<Rightarrow> int option" where
  "py_int valor =
     (case strip_int valor of
        [] \<Rightarrow> None
      | c # cs \<Rightarrow>
          if c = CHR ''-'' then map_option uminus (leer_natural cs)
          else if c = CHR ''+'' then leer_natural cs
          else leer_natural (c # cs))"

text \<open>
  The filter \<^verbatim>\<open>{"$regex": valor, "$options": "i"}\<close> hands \<^verbatim>\<open>valor\<close> to the
  regular-expression engine of the store, which is not part of the program. The
  engine is a parameter of the model: for a pattern it gives \<open>None\<close> when the store
  refuses the pattern (the driver then raises \<^verbatim>\<open>OperationFailure\<close>), and otherwise
  the texts in which the pattern has a match somewhere, ignoring case.
\<close>

type_synonym motor_regex = "string \<Rightarrow> (string \<Rightarrow> bool) option"

text \<open>The dictionary \<^verbatim>\<open>filtro\<close> that \<^verbatim>\<open>buscar_producto\<close> builds, and its meaning in the store.\<close>

datatype filtro =
    IdIgual int
  | NombreRegex string
  | ProveedorRegex string
  | CategoriaIgual string

fun coincide :: "motor_regex \<Rightarrow> filtro \<Rightarrow> (producto \<Rightarrow> bool) option" where
  "coincide motor (IdIgual n) = Some (\<lambda>p. id_producto p = n)"
| "coincide motor (NombreRegex pat) = map_option (\<lambda>m p. m (nombre p)) (motor pat)"
| "coincide motor (ProveedorRegex pat) = map_option (\<lambda>m p. m (proveedor p)) (motor pat)"
| "coincide motor (CategoriaIgual c) = Some (\<lambda>p. categoria p = c)"

text \<open>\<^verbatim>\<open>find(filtro).sort("id_producto", 1)\<close>.\<close>

definition find_sort_id :: "motor_regex \<Rightarrow> filtro \<Rightarrow> producto list \<Rightarrow> error + producto list" where
  "find_sort_id motor f ps =
     (case coincide motor f of
        None \<Rightarrow> Inl OperationFailure
      | Some P \<Rightarrow> Inr (sort_key id_producto (filter P ps)))"

definition buscar_producto ::
  "motor_regex \<Rightarrow> db \<Rightarrow> string \<Rightarrow> string \<Rightarrow> error + producto list" where
  "buscar_producto motor s criterio valor =
     (case coleccion_productos s of
        None \<Rightarrow> Inl SinConexion
      | Some ps \<Rightarrow>
          if criterio = ''id'' then
            (case py_int valor of
               None \<Rightarrow> Inl LiteralInvalido
             | Some n \<Rightarrow> find_sort_id motor (IdIgual n) ps)
          else if criterio = ''nombre'' then find_sort_id motor (NombreRegex valor) ps
          else if criterio = ''proveedor'' then find_sort_id motor (ProveedorRegex valor) ps
          else if criterio = ''categoria'' then find_sort_id motor (CategoriaIgual valor) ps
          else Inl CriterioInvalido)"

text \<open>
  The words of the specification for the search by name or supplier: the field
  contains the value as a substring, ignoring case. Case folding is the simple one
  on the code points below 256.
\<close>

definition minuscula :: "char \<Rightarrow> char" where
  "minuscula c =
     (let n = ord c
      in if (65 \<le> n \<and> n \<le> 90) \<or> (192 \<le> n \<and> n \<le> 214) \<or> (216 \<le> n \<and> n \<le> 222)
         then char_of (n + 32) else c)"

definition contiene_sin_caja :: "string \<Rightarrow> string \<Rightarrow> bool" where
  "contiene_sin_caja v t = sublist (map minuscula v) (map minuscula t)"

text \<open>
  An example of an engine. It accepts the patterns made of ordinary characters, each
  matching itself up to case, and of dots, each matching any character but a line
  feed; it refuses a pattern with any other operator of the pattern language
  (backslash, anchors, alternation, quantifiers, groups, classes), which the engine
  of the store would read.
\<close>

definition es_operador :: "char \<Rightarrow> bool" where
  "es_operador c = (c \<in> set (CHR 0x5C # ''^$.|?*+()[]{}''))"

fun coincide_aqui :: "string \<Rightarrow> string \<Rightarrow> bool" where
  "coincide_aqui [] t = True"
| "coincide_aqui (c # cs) [] = False"
| "coincide_aqui (c # cs) (x # xs) =
     ((if c = CHR ''.'' then x \<noteq> CHR 0x0A else minuscula c = minuscula x)
      \<and> coincide_aqui cs xs)"

fun regex_i :: "string \<Rightarrow> string \<Rightarrow> bool" where
  "regex_i pat [] = coincide_aqui pat []"
| "regex_i pat (x # xs) = (coincide_aqui pat (x # xs) \<or> regex_i pat xs)"

definition motor_ejemplo :: motor_regex where
  "motor_ejemplo pat =
     (if list_ex (\<lambda>c. es_operador c \<and> c \<noteq> CHR ''.'') pat then None else Some (regex_i pat))"

text \<open>The value has no character that is an operator of the pattern language.\<close>

definition patron_literal :: "string \<Rightarrow> bool" where
  "patron_literal pat = (\<not> list_ex es_operador pat)"

section \<open>Reports\<close>

text \<open>The loop of \<^verbatim>\<open>generar_reporte\<close>, on the pair \<^verbatim>\<open>(bajo_stock, valor_total)\<close>.\<close>

fun reporte_bucle :: "producto list \<Rightarrow> producto list \<times> pyfloat \<Rightarrow> producto list \<times> pyfloat" where
  "reporte_bucle [] acc = acc"
| "reporte_bucle (p # ps) (bajo_stock, valor_total) =
     (let valor_total' = valor_total + float_of_int (cantidad p) * precio p
      in if cantidad p < STOCK_MINIMO
         then reporte_bucle ps (bajo_stock @ [p], valor_total')
         else reporte_bucle ps (bajo_stock, valor_total'))"

definition generar_reporte :: "db \<Rightarrow> error + (producto list \<times> pyfloat)" where
  "generar_reporte s =
     (case coleccion_productos s of
        None \<Rightarrow> Inl SinConexion
      | Some productos \<Rightarrow> Inr (reporte_bucle productos ([], 0)))"

section \<open>Sales history\<close>

text \<open>
  Dates are compared field by field, from the year down to the microsecond, as
  Python and the store compare them.
\<close>

definition dt_key :: "datetime \<Rightarrow> nat \<times> nat \<times> nat \<times> nat \<times> nat \<times> nat \<times> nat" where
  "dt_key d = (year d, month d, day d, hour d, minute d, second d, microsecond d)"

definition dt_le :: "datetime \<Rightarrow> datetime \<Rightarrow> bool" where
  "dt_le a b = (dt_key a \<le> dt_key b)"

text \<open>
  The dictionary \<^verbatim>\<open>filtro\<close> of \<^verbatim>\<open>obtener_ventas\<close>: each of the three keys
  \<^verbatim>\<open>usuario\<close>, \<^verbatim>\<open>fecha.$gte\<close> and \<^verbatim>\<open>fecha.$lte\<close> is present or absent. The
  driver encodes a date of the filter as it encodes a stored one, to the
  millisecond.
\<close>

record filtro_ventas =
  f_usuario :: "string option"
  f_gte :: "datetime option"
  f_lte :: "datetime option"

definition coincide_venta :: "filtro_ventas \<Rightarrow> venta \<Rightarrow> bool" where
  "coincide_venta f v =
     ((case f_usuario f of None \<Rightarrow> True | Some u \<Rightarrow> usuario v = Some u)
      \<and> (case f_gte f of None \<Rightarrow> True | Some d \<Rightarrow> dt_le (bson_datetime d) (fecha v))
      \<and> (case f_lte f of None \<Rightarrow> True | Some d \<Rightarrow> dt_le (fecha v) (bson_datetime d)))"

text \<open>
  \<^verbatim>\<open>find(filtro).sort("fecha", -1)\<close>. The store does not say in which order it returns
  sales of equal date; here they come in the reverse of their insertion order.
\<close>

definition find_sort_fecha_desc :: "filtro_ventas \<Rightarrow> venta list \<Rightarrow> venta list" where
  "find_sort_fecha_desc f vs = rev (sort_key (\<lambda>v. dt_key (fecha v)) (filter (coincide_venta f) vs))"

definition obtener_ventas ::
  "db \<Rightarrow> string option \<Rightarrow> datetime option \<Rightarrow> datetime option \<Rightarrow> error + venta list" where
  "obtener_ventas s filtro_usuario fecha_desde fecha_hasta =
     (case coleccion_ventas s of
        None \<Rightarrow> Inl SinConexionVentas
      | Some vs \<Rightarrow>
          let fu = (case filtro_usuario of
                      None \<Rightarrow> None
                    | Some u \<Rightarrow> if u = [] then None else Some u)
          in Inr (find_sort_fecha_desc
                    \<lparr>f_usuario = fu, f_gte = fecha_desde, f_lte = fecha_hasta\<rparr> vs))"

text \<open>
  \<^verbatim>\<open>cargar_ventas\<close>, up to the call of \<^verbatim>\<open>obtener_ventas\<close>. The two date entries are
  taken as \<^verbatim>\<open>strptime(..., "%Y-%m-%d")\<close> reads them: \<open>None\<close> for an empty entry,
  and year, month and day otherwise (a text that is not a date makes the source
  show a message and return, and is not an input of the model).
\<close>

type_synonym fecha_ymd = "nat \<times> nat \<times> nat"

fun strptime_ymd :: "fecha_ymd \<Rightarrow> datetime" where
  "strptime_ymd (y, m, d) =
     \<lparr>year = y, month = m, day = d, hour = 0, minute = 0, second = 0, microsecond = 0\<rparr>"

definition cargar_ventas ::
  "db \<Rightarrow> string \<Rightarrow> fecha_ymd option \<Rightarrow> fecha_ymd option \<Rightarrow> error + venta list" where
  "cargar_ventas s usuario_txt desde_txt hasta_txt =
     (let filtro_usuario = strip usuario_txt;
          fecha_desde = map_option strptime_ymd desde_txt;
          fecha_hasta = map_option (\<lambda>t. (strptime_ymd t)\<lparr>hour := 23, minute := 59, second := 59\<rparr>)
                          hasta_txt
      in obtener_ventas s (if filtro_usuario = [] then None else Some filtro_usuario)
           fecha_desde fecha_hasta)"

section \<open>Sequences of calls\<close>

text \<open>
  A call of one of the four operations that write to the store. A call that raises
  returns \<open>Inl\<close>: in the source every \<^verbatim>\<open>raise\<close> of these operations comes before
  the first write, so the store is then the one before the call.
\<close>

datatype llamada =
    Agregar int string string pyfloat int string
  | Modificar int "campo list"
  | Eliminar int
  | Venta entorno int int "string option"

fun ejecutar :: "llamada \<Rightarrow> db \<Rightarrow> error + db" where
  "ejecutar (Agregar i nom cat pre cant prov) s = map_sum id fst (agregar_producto s i nom cat pre cant prov)"
| "ejecutar (Modificar i nuevos_datos) s = map_sum id fst (modificar_producto s i nuevos_datos)"
| "ejecutar (Eliminar i) s = map_sum id fst (eliminar_producto s i)"
| "ejecutar (Venta env i q usr) s = map_sum id fst (realizar_venta env s i q usr)"

text \<open>A sequence of calls, each of which returns without raising.\<close>

fun ejecutar_todas :: "llamada list \<Rightarrow> db \<Rightarrow> error + db" where
  "ejecutar_todas [] s = Inr s"
| "ejecutar_todas (c # cs) s =
     (case ejecutar c s of Inl e \<Rightarrow> Inl e | Inr s' \<Rightarrow> ejecutar_todas cs s')"

section \<open>Properties of the specification\<close>

text \<open>No product of the catalog has a negative quantity or a negative price.\<close>

definition sin_negativos :: "producto list \<Rightarrow> bool" where
  "sin_negativos ps = list_all (\<lambda>p. 0 \<le> cantidad p \<and> 0 \<le> precio p) ps"

definition db_sin_negativos :: "db \<Rightarrow> bool" where
  "db_sin_negativos s =
     (case coleccion_productos s of None \<Rightarrow> True | Some ps \<Rightarrow> sin_negativos ps)"

text \<open>The values that a \<^verbatim>\<open>nuevos_datos\<close> gives to price and quantity are not negative.\<close>

fun campo_no_negativo :: "campo \<Rightarrow> bool" where
  "campo_no_negativo (Precio v) = (0 \<le> v)"
| "campo_no_negativo (Cantidad v) = (0 \<le> v)"
| "campo_no_negativo c = True"

text \<open>
  The calls that the amended invariant is about: an addition gives a price that is
  a number, and a modification gives price and quantity only values that are not
  negative.
\<close>

fun datos_admitidos :: "llamada \<Rightarrow> bool" where
  "datos_admitidos (Agregar i nom cat pre cant prov) = es_numero pre"
| "datos_admitidos (Modificar i nuevos_datos) = list_all campo_no_negativo nuevos_datos"
| "datos_admitidos c = True"

text \<open>
  The five field checks of \<^verbatim>\<open>agregar_producto\<close> all pass: the name and the supplier
  are not empty, the category is one of the four, and neither the price nor the
  quantity is below zero.
\<close>

definition campos_validos :: "string \<Rightarrow> string \<Rightarrow> pyfloat \<Rightarrow> int \<Rightarrow> string \<Rightarrow> bool" where
  "campos_validos nom cat pre cant prov =
     (nom \<noteq> [] \<and> cat \<in> set CATEGORIAS \<and> \<not> pre < 0 \<and> \<not> cant < 0 \<and> prov \<noteq> [])"

text \<open>The total of a sale record is its quantity times its unit price.\<close>

definition total_coherente :: "venta \<Rightarrow> bool" where
  "total_coherente v = (total v = float_of_int (venta_cantidad v) * precio_unitario v)"

text \<open>The documents of the other products, in order.\<close>

definition los_demas :: "int \<Rightarrow> producto list \<Rightarrow> producto list" where
  "los_demas i ps = filter (\<lambda>p. \<not> por_id i p) ps"


text \<open>The store after a call: the one before it when the call raised.\<close>

fun store_despues :: "db \<Rightarrow> error + (db \<times> 'a) \<Rightarrow> db" where
  "store_despues s (Inl e) = s"
| "store_despues s (Inr (s', r)) = s'"

section \<open>Example data\<close>

definition ejemplo_mouse :: producto where
  "ejemplo_mouse =
     \<lparr>id_producto = 1, nombre = ''Mouse'', categoria = ''Accesorios'',
      precio = Num 10, cantidad = 3, proveedor = ''Acme''\<rparr>"

definition ejemplo_cable :: producto where
  "ejemplo_cable =
     \<lparr>id_producto = 2, nombre = ''Cable USB'', categoria = ''Accesorios'',
      precio = Num 4, cantidad = 12, proveedor = ''Acme''\<rparr>"

definition db_vacia :: db where
  "db_vacia = \<lparr>coleccion_productos = Some [], coleccion_ventas = Some []\<rparr>"

definition ejemplo_db :: db where
  "ejemplo_db = \<lparr>coleccion_productos = Some [ejemplo_mouse], coleccion_ventas = Some []\<rparr>"

definition ejemplo_db2 :: db where
  "ejemplo_db2 =
     \<lparr>coleccion_productos = Some [ejemplo_cable, ejemplo_mouse], coleccion_ventas = Some []\<rparr>"

text \<open>The last second of 31 January 2025, half a second in.\<close>

definition ejemplo_reloj :: datetime where
  "ejemplo_reloj =
     \<lparr>year = 2025, month = 1, day = 31, hour = 23, minute = 59, second = 59,
      microsecond = 500123\<rparr>"

definition ejemplo_entorno :: entorno where
  "ejemplo_entorno = \<lparr>ahora = ejemplo_reloj, insert_venta_falla = False\<rparr>"

definition ejemplo_entorno_falla :: entorno where
  "ejemplo_entorno_falla = \<lparr>ahora = ejemplo_reloj, insert_venta_falla = True\<rparr>"

definition ejemplo_venta :: venta where
  "ejemplo_venta =
     \<lparr>venta_id_producto = 1, venta_nombre = ''Mouse'', venta_cantidad = 2,
      precio_unitario = Num 10, total = Num 20,
      fecha = \<lparr>year = 2025, month = 1, day = 31, hour = 23, minute = 59, second = 59,
               microsecond = 500000\<rparr>,
      usuario = Some ''alice''\<rparr>"

text \<open>The mouse after its quantity was set to \<open>- 3\<close> by a modification.\<close>

definition ejemplo_deuda :: producto where
  "ejemplo_deuda = ejemplo_mouse\<lparr>cantidad := - 3\<rparr>"

definition ejemplo_db_deuda :: db where
  "ejemplo_db_deuda = \<lparr>coleccion_productos = Some [ejemplo_deuda], coleccion_ventas = Some []\<rparr>"

text \<open>A run of three calls from the empty store, and the store it ends in.\<close>

definition ejemplo_llamadas :: "llamada list" where
  "ejemplo_llamadas =
     [Agregar 1 ''Mouse'' ''Accesorios'' (Num 10) 3 ''Acme'',
      Modificar 1 [Precio (Num 12), Cantidad 8],
      Venta ejemplo_entorno 1 2 (Some ''alice'')]"

definition ejemplo_db_final :: db where
  "ejemplo_db_final =
     \<lparr>coleccion_productos = Some [ejemplo_mouse\<lparr>precio := Num 12, cantidad := 6\<rparr>],
      coleccion_ventas = Some [ejemplo_venta\<lparr>precio_unitario := Num 12, total := Num 24\<rparr>]\<rparr>"

text \<open>The store after alice bought two of the three mice at the example clock.\<close>

definition ejemplo_db_vendido :: db where
  "ejemplo_db_vendido =
     \<lparr>coleccion_productos = Some [ejemplo_mouse\<lparr>cantidad := 1\<rparr>],
      coleccion_ventas = Some [ejemplo_venta]\<rparr>"

section \<open>Facts about floats\<close>

lemma pyfloat_menor_cero [simp]: "Num a < 0 \<longleftrightarrow> a < 0" "\<not> NaN < (0::pyfloat)"
  by (simp_all add: zero_pyfloat_def)

lemma pyfloat_cero_menor_igual [simp]: "0 \<le> Num a \<longleftrightarrow> 0 \<le> a" "\<not> (0::pyfloat) \<le> NaN"
  by (simp_all add: zero_pyfloat_def)

lemma float_of_int_por [simp]: "float_of_int n * Num a = Num (of_int n * a)"
  by (simp add: float_of_int_def)

lemma pasa_control_y_es_numero: "\<not> x < 0 \<Longrightarrow> es_numero x \<Longrightarrow> (0::pyfloat) \<le> x"
  by (cases x) simp_all

section \<open>Facts about the store gateway\<close>

lemma find_one_Some_holds: "find_one P xs = Some x \<Longrightarrow> P x \<and> x \<in> set xs"
  by (induction xs) (auto split: if_splits)

lemma find_one_None_iff: "find_one P xs = None \<longleftrightarrow> (\<forall>x \<in> set xs. \<not> P x)"
  by (induction xs) auto

lemma find_one_update_one:
  "find_one P xs = Some x \<Longrightarrow> P (f x) \<Longrightarrow> find_one P (update_one P f xs) = Some (f x)"
  by (induction xs) (auto split: if_splits)

lemma update_one_others:
  "\<not> P y \<Longrightarrow> y \<in> set (update_one P f xs) \<longleftrightarrow> y \<in> set xs"
  if "\<And>x. P x \<Longrightarrow> P (f x)"
  using that by (induction xs) auto

lemma length_update_one: "length (update_one P f xs) = length xs"
  by (induction xs) auto

lemma update_one_no_match: "find_one P xs = None \<Longrightarrow> update_one P f xs = xs"
  by (induction xs) (auto split: if_splits)

lemma los_demas_update_one:
  "(\<And>p. por_id i (f p) = por_id i p) \<Longrightarrow>
   los_demas i (update_one (por_id i) f ps) = los_demas i ps"
  by (induction ps) (auto simp: los_demas_def)

lemma por_id_cantidad: "por_id i (p\<lparr>cantidad := n\<rparr>) = por_id i p"
  by (simp add: por_id_def)

lemma find_one_decremento:
  "find_one (por_id i) ps = Some prd \<Longrightarrow>
   find_one (por_id i) (update_one (por_id i) (\<lambda>p. p\<lparr>cantidad := n\<rparr>) ps)
     = Some (prd\<lparr>cantidad := n\<rparr>)"
  by (induction ps) (auto simp: por_id_def split: if_splits)

section \<open>A sale\<close>

text \<open>What \<^verbatim>\<open>realizar_venta\<close> returns once its three checks have passed.\<close>

lemma realizar_venta_exito:
  assumes "coleccion_productos s = Some ps" and "find_one (por_id idp) ps = Some prd"
    and "0 < q" and "q \<le> cantidad prd"
  shows "realizar_venta env s idp q usr =
           Inr (s\<lparr>coleccion_productos :=
                     Some (update_one (por_id idp) (\<lambda>p. p\<lparr>cantidad := cantidad prd - q\<rparr>) ps),
                   coleccion_ventas :=
                     (case coleccion_ventas s of
                        None \<Rightarrow> None
                      | Some vs \<Rightarrow>
                          if insert_venta_falla env then Some vs
                          else Some (vs @ [\<lparr>venta_id_producto = idp, venta_nombre = nombre prd,
                                  venta_cantidad = q,
                                  precio_unitario = precio prd, total = float_of_int q * precio prd,
                                  fecha = bson_datetime (ahora env), usuario = usr\<rparr>]))\<rparr>,
                float_of_int q * precio prd)"
  using assms by (simp add: realizar_venta_def Let_def)

text \<open>
  Claim C1. Let the product that the lookup by \<open>idp\<close> finds have quantity \<open>Q\<close> and
  price \<open>P\<close>, and let \<open>0 < q \<le> Q\<close>. Then the sale succeeds and returns \<open>q * P\<close>;
  afterwards the lookup finds the same product with quantity \<open>Q - q\<close> and its other
  fields as before, and the documents of the other products are untouched. This
  holds whatever the clock, the user and the fate of the sale record.
\<close>

theorem venta_descuenta_y_cobra:
  assumes "coleccion_productos s = Some ps" and "find_one (por_id idp) ps = Some prd"
    and "0 < q" and "q \<le> cantidad prd"
  shows "\<exists>s' ps'. realizar_venta env s idp q usr = Inr (s', float_of_int q * precio prd)
           \<and> coleccion_productos s' = Some ps'
           \<and> find_one (por_id idp) ps' = Some (prd\<lparr>cantidad := cantidad prd - q\<rparr>)
           \<and> los_demas idp ps' = los_demas idp ps"
proof -
  let ?ps' = "update_one (por_id idp) (\<lambda>p. p\<lparr>cantidad := cantidad prd - q\<rparr>) ps"
  have "find_one (por_id idp) ?ps' = Some (prd\<lparr>cantidad := cantidad prd - q\<rparr>)"
    using assms(2) by (rule find_one_decremento)
  moreover have "los_demas idp ?ps' = los_demas idp ps"
    by (rule los_demas_update_one) (rule por_id_cantidad)
  ultimately show ?thesis
    using realizar_venta_exito [OF assms, of env usr] by simp
qed

theorem venta_descuenta_y_cobra_witness:
  "coleccion_productos ejemplo_db = Some [ejemplo_mouse]
   \<and> find_one (por_id 1) [ejemplo_mouse] = Some ejemplo_mouse
   \<and> (0::int) < 2 \<and> 2 \<le> cantidad ejemplo_mouse
   \<and> (\<exists>s' ps'. realizar_venta ejemplo_entorno ejemplo_db 1 2 (Some ''alice'') = Inr (s', Num 20)
           \<and> coleccion_productos s' = Some ps'
           \<and> find_one (por_id 1) ps' = Some (ejemplo_mouse\<lparr>cantidad := 1\<rparr>)
           \<and> los_demas 1 ps' = los_demas 1 [ejemplo_mouse])"
proof -
  have h1: "coleccion_productos ejemplo_db = Some [ejemplo_mouse]"
    by (simp add: ejemplo_db_def)
  have h2: "find_one (por_id 1) [ejemplo_mouse] = Some ejemplo_mouse"
    by (simp add: por_id_def ejemplo_mouse_def)
  have h3: "(0::int) < 2" by simp
  have h4: "(2::int) \<le> cantidad ejemplo_mouse" by (simp add: ejemplo_mouse_def)
  have p: "precio ejemplo_mouse = Num 10" "cantidad ejemplo_mouse - 2 = 1"
    by (simp_all add: ejemplo_mouse_def)
  show ?thesis
    using h1 h2 h4 venta_descuenta_y_cobra [OF h1 h2 h3 h4, of ejemplo_entorno "Some ''alice''"]
    by (simp add: p float_of_int_def)
qed

text \<open>
  Claim C2, as amended. Let the product found have quantity \<open>Q\<close>, and let \<open>q > Q\<close>
  and \<open>q > 0\<close>. Then the sale raises "No hay stock suficiente", the error of kind
  \<open>InsufficientStockError\<close>, and the store is the one before the call. The second
  condition is needed: the source tests \<open>q \<le> 0\<close> before it compares \<open>q\<close> with the
  stock.
\<close>

theorem venta_sin_stock:
  assumes "coleccion_productos s = Some ps" and "find_one (por_id idp) ps = Some prd"
    and "0 < q" and "cantidad prd < q"
  shows "realizar_venta env s idp q usr = Inl StockInsuficiente
         \<and> clase StockInsuficiente = InsufficientStockError
         \<and> store_despues s (realizar_venta env s idp q usr) = s"
  using assms by (simp add: realizar_venta_def Let_def)

theorem venta_sin_stock_witness:
  "coleccion_productos ejemplo_db = Some [ejemplo_mouse]
   \<and> find_one (por_id 1) [ejemplo_mouse] = Some ejemplo_mouse
   \<and> (0::int) < 5 \<and> cantidad ejemplo_mouse < 5
   \<and> realizar_venta ejemplo_entorno ejemplo_db 1 5 (Some ''alice'') = Inl StockInsuficiente
   \<and> store_despues ejemplo_db (realizar_venta ejemplo_entorno ejemplo_db 1 5 (Some ''alice''))
       = ejemplo_db"
proof -
  have h1: "coleccion_productos ejemplo_db = Some [ejemplo_mouse]"
    by (simp add: ejemplo_db_def)
  have h2: "find_one (por_id 1) [ejemplo_mouse] = Some ejemplo_mouse"
    by (simp add: por_id_def ejemplo_mouse_def)
  have h3: "(0::int) < 5" by simp
  have h4: "cantidad ejemplo_mouse < 5" by (simp add: ejemplo_mouse_def)
  show ?thesis
    using h1 h2 h4 venta_sin_stock [OF h1 h2 h3 h4, of ejemplo_entorno "Some ''alice''"]
    by simp
qed

text \<open>
  The claim as stated fails where the stock is negative, a state that a modification
  reaches: after adding the mouse and setting its quantity to \<open>- 3\<close>, a sale of
  \<open>- 1\<close> units asks for more than the stock and raises "La cantidad vendida debe ser
  mayor a 0", an error of kind \<open>ValidationError\<close>.
\<close>

theorem venta_sin_stock_counterexample:
  "ejecutar_todas [Agregar 1 ''Mouse'' ''Accesorios'' (Num 10) 3 ''Acme'', Modificar 1 [Cantidad (- 3)]]
     db_vacia = Inr ejemplo_db_deuda
   \<and> find_one (por_id 1) [ejemplo_deuda] = Some ejemplo_deuda
   \<and> cantidad ejemplo_deuda < - 1
   \<and> realizar_venta ejemplo_entorno ejemplo_db_deuda 1 (- 1) None = Inl CantidadNoPositiva
   \<and> clase CantidadNoPositiva \<noteq> InsufficientStockError"
  by (simp add: ejemplo_db_deuda_def ejemplo_deuda_def ejemplo_mouse_def db_vacia_def
      agregar_producto_def modificar_producto_def realizar_venta_def por_id_def CATEGORIAS_def
      dollar_set_def matched_count_def Let_def)

text \<open>
  Claim C4. When the checks of a sale have passed and the stock has been written,
  an insertion of the sale record that raises changes nothing of that: the call
  still returns the total \<open>q * P\<close>, the product keeps its decremented quantity, and
  the sales collection is the one before the call.
\<close>

theorem venta_sobrevive_fallo_registro:
  assumes "coleccion_productos s = Some ps" and "find_one (por_id idp) ps = Some prd"
    and "0 < q" and "q \<le> cantidad prd"
    and "coleccion_ventas s = Some vs" and "insert_venta_falla env"
  shows "\<exists>s' ps'. realizar_venta env s idp q usr = Inr (s', float_of_int q * precio prd)
           \<and> coleccion_productos s' = Some ps'
           \<and> find_one (por_id idp) ps' = Some (prd\<lparr>cantidad := cantidad prd - q\<rparr>)
           \<and> coleccion_ventas s' = Some vs"
proof -
  let ?ps' = "update_one (por_id idp) (\<lambda>p. p\<lparr>cantidad := cantidad prd - q\<rparr>) ps"
  have "find_one (por_id idp) ?ps' = Some (prd\<lparr>cantidad := cantidad prd - q\<rparr>)"
    using assms(2) by (rule find_one_decremento)
  then show ?thesis
    using realizar_venta_exito [OF assms(1-4), of env usr] assms(5,6) by simp
qed

theorem venta_sobrevive_fallo_registro_witness:
  "coleccion_productos ejemplo_db = Some [ejemplo_mouse]
   \<and> find_one (por_id 1) [ejemplo_mouse] = Some ejemplo_mouse
   \<and> (0::int) < 2 \<and> 2 \<le> cantidad ejemplo_mouse
   \<and> coleccion_ventas ejemplo_db = Some [] \<and> insert_venta_falla ejemplo_entorno_falla
   \<and> (\<exists>s' ps'. realizar_venta ejemplo_entorno_falla ejemplo_db 1 2 (Some ''alice'') = Inr (s', Num 20)
           \<and> coleccion_productos s' = Some ps'
           \<and> find_one (por_id 1) ps' = Some (ejemplo_mouse\<lparr>cantidad := 1\<rparr>)
           \<and> coleccion_ventas s' = Some [])"
proof -
  have h1: "coleccion_productos ejemplo_db = Some [ejemplo_mouse]"
    by (simp add: ejemplo_db_def)
  have h2: "find_one (por_id 1) [ejemplo_mouse] = Some ejemplo_mouse"
    by (simp add: por_id_def ejemplo_mouse_def)
  have h3: "(0::int) < 2" by simp
  have h4: "(2::int) \<le> cantidad ejemplo_mouse" by (simp add: ejemplo_mouse_def)
  have h5: "coleccion_ventas ejemplo_db = Some []" by (simp add: ejemplo_db_def)
  have h6: "insert_venta_falla ejemplo_entorno_falla" by (simp add: ejemplo_entorno_falla_def)
  have p: "precio ejemplo_mouse = Num 10" "cantidad ejemplo_mouse - 2 = 1"
    by (simp_all add: ejemplo_mouse_def)
  show ?thesis
    using h1 h2 h4 h5 h6
      venta_sobrevive_fallo_registro [OF h1 h2 h3 h4 h5 h6, of "Some ''alice''"]
    by (simp add: p float_of_int_def)
qed

section \<open>Adding a product\<close>

text \<open>
  Claim C5, as amended. When the catalog already holds a product with the identifier
  given, adding always fails, and the store is the one before the call. The error is
  the one of the first field check that fails, in the order name, category, price,
  quantity, supplier, each of kind \<open>ValidationError\<close>; when the five checks pass, it
  is the conflict "Ya existe un producto con ID ...", of kind \<open>ConflictError\<close>.
\<close>

theorem agregar_id_repetido:
  assumes "coleccion_productos s = Some ps" and "find_one (por_id idp) ps = Some prd"
  shows "\<exists>e. agregar_producto s idp nom cat pre cant prov = Inl e
           \<and> e = (if nom = [] then NombreVacio
                   else if cat \<notin> set CATEGORIAS then CategoriaInvalida
                   else if pre < 0 then PrecioNegativo
                   else if cant < 0 then CantidadNegativa
                   else if prov = [] then ProveedorVacio
                   else IdDuplicado idp)
           \<and> (if campos_validos nom cat pre cant prov
               then e = IdDuplicado idp \<and> clase e = ConflictError
               else clase e = ValidationError)
           \<and> store_despues s (agregar_producto s idp nom cat pre cant prov) = s"
  using assms by (auto simp: agregar_producto_def campos_validos_def)

theorem agregar_id_repetido_witness:
  "coleccion_productos ejemplo_db = Some [ejemplo_mouse]
   \<and> find_one (por_id 1) [ejemplo_mouse] = Some ejemplo_mouse
   \<and> campos_validos ''Teclado'' ''Accesorios'' (Num 25) 7 ''Acme''
   \<and> agregar_producto ejemplo_db 1 ''Teclado'' ''Accesorios'' (Num 25) 7 ''Acme''
       = Inl (IdDuplicado 1)
   \<and> \<not> campos_validos [] ''Accesorios'' (Num 25) 7 []
   \<and> agregar_producto ejemplo_db 1 [] ''Accesorios'' (Num 25) 7 [] = Inl NombreVacio
   \<and> store_despues ejemplo_db
        (agregar_producto ejemplo_db 1 ''Teclado'' ''Accesorios'' (Num 25) 7 ''Acme'')
       = ejemplo_db"
proof -
  have h1: "coleccion_productos ejemplo_db = Some [ejemplo_mouse]"
    by (simp add: ejemplo_db_def)
  have h2: "find_one (por_id 1) [ejemplo_mouse] = Some ejemplo_mouse"
    by (simp add: por_id_def ejemplo_mouse_def)
  have v: "campos_validos ''Teclado'' ''Accesorios'' (Num 25) 7 ''Acme''"
    by (simp add: campos_validos_def CATEGORIAS_def zero_pyfloat_def)
  have n: "\<not> campos_validos [] ''Accesorios'' (Num 25) 7 []"
    by (simp add: campos_validos_def)
  have c: "''Accesorios'' \<in> set CATEGORIAS"
    by (simp add: CATEGORIAS_def)
  have a: "agregar_producto ejemplo_db 1 ''Teclado'' ''Accesorios'' (Num 25) 7 ''Acme''
       = Inl (IdDuplicado 1)"
    using agregar_id_repetido [OF h1 h2, of "''Teclado''" "''Accesorios''" "Num 25" 7 "''Acme''"] c
    by (auto simp: zero_pyfloat_def)
  have b: "agregar_producto ejemplo_db 1 [] ''Accesorios'' (Num 25) 7 [] = Inl NombreVacio"
    using agregar_id_repetido [OF h1 h2, of "[]" "''Accesorios''" "Num 25" 7 "[]"]
    by auto
  show ?thesis
    using h1 h2 v n a b by simp
qed

text \<open>
  The claim as stated fails for a call whose fields are not all valid: with the
  identifier of the mouse and an empty name, adding raises "El nombre no puede estar
  vacio", an error of kind \<open>ValidationError\<close>, and no conflict.
\<close>

theorem agregar_id_repetido_counterexample:
  "coleccion_productos ejemplo_db = Some [ejemplo_mouse]
   \<and> find_one (por_id 1) [ejemplo_mouse] = Some ejemplo_mouse
   \<and> agregar_producto ejemplo_db 1 [] ''Accesorios'' (Num 25) 7 ''Acme'' = Inl NombreVacio
   \<and> clase NombreVacio \<noteq> ConflictError"
  by (simp add: ejemplo_db_def ejemplo_mouse_def por_id_def agregar_producto_def)

text \<open>
  Claim C10. With a connection to the store, a call whose fields break one of the
  five constraints fails with an error of kind \<open>ValidationError\<close>, and with that same
  error whatever the catalog holds (also a product with the identifier given); and
  a call that fails with a conflict has all its fields valid, the error is the one of
  the duplicate identifier, and the catalog does hold that identifier.
\<close>

theorem agregar_valida_antes_de_buscar:
  assumes "coleccion_productos s = Some ps"
  shows "(\<not> campos_validos nom cat pre cant prov \<longrightarrow>
            (\<exists>e. agregar_producto s idp nom cat pre cant prov = Inl e
                 \<and> clase e = ValidationError
                 \<and> agregar_producto (s\<lparr>coleccion_productos := Some ps'\<rparr>) idp nom cat pre cant prov
                     = Inl e))
         \<and> (\<forall>e. agregar_producto s idp nom cat pre cant prov = Inl e \<and> clase e = ConflictError \<longrightarrow>
               campos_validos nom cat pre cant prov \<and> e = IdDuplicado idp
               \<and> find_one (por_id idp) ps \<noteq> None)"
  using assms
  by (auto simp: agregar_producto_def campos_validos_def Let_def split: option.splits if_splits)

theorem agregar_valida_antes_de_buscar_witness:
  "coleccion_productos ejemplo_db = Some [ejemplo_mouse]
   \<and> \<not> campos_validos ''Teclado'' ''Accesorios'' (Num (- 1)) 7 ''Acme''
   \<and> find_one (por_id 1) [ejemplo_mouse] = Some ejemplo_mouse
   \<and> agregar_producto ejemplo_db 1 ''Teclado'' ''Accesorios'' (Num (- 1)) 7 ''Acme'' = Inl PrecioNegativo
   \<and> agregar_producto (ejemplo_db\<lparr>coleccion_productos := Some []\<rparr>) 1 ''Teclado'' ''Accesorios'' (Num (- 1)) 7 ''Acme''
       = Inl PrecioNegativo
   \<and> agregar_producto ejemplo_db 1 ''Teclado'' ''Accesorios'' (Num 25) 7 ''Acme'' = Inl (IdDuplicado 1)
   \<and> campos_validos ''Teclado'' ''Accesorios'' (Num 25) 7 ''Acme''"
proof -
  have h1: "coleccion_productos ejemplo_db = Some [ejemplo_mouse]"
    by (simp add: ejemplo_db_def)
  have h2: "find_one (por_id 1) [ejemplo_mouse] = Some ejemplo_mouse"
    by (simp add: por_id_def ejemplo_mouse_def)
  have n: "\<not> campos_validos ''Teclado'' ''Accesorios'' (Num (- 1)) 7 ''Acme''"
    by (simp add: campos_validos_def)
  have a: "agregar_producto ejemplo_db 1 ''Teclado'' ''Accesorios'' (Num (- 1)) 7 ''Acme'' = Inl PrecioNegativo"
    by (simp add: agregar_producto_def h1 CATEGORIAS_def)
  have b: "agregar_producto ejemplo_db 1 ''Teclado'' ''Accesorios'' (Num 25) 7 ''Acme'' = Inl (IdDuplicado 1)"
    by (simp add: agregar_producto_def h1 CATEGORIAS_def por_id_def ejemplo_mouse_def)
  from agregar_valida_antes_de_buscar [OF h1, of "''Teclado''" "''Accesorios''" "Num (- 1)" 7 "''Acme''" 1 "[]"] n a
  have c: "agregar_producto (ejemplo_db\<lparr>coleccion_productos := Some []\<rparr>) 1 ''Teclado'' ''Accesorios'' (Num (- 1)) 7 ''Acme''
       = Inl PrecioNegativo"
    by auto
  from agregar_valida_antes_de_buscar [OF h1, of "''Teclado''" "''Accesorios''" "Num 25" 7 "''Acme''" 1 "[]"] b
  have d: "campos_validos ''Teclado'' ''Accesorios'' (Num 25) 7 ''Acme''"
    by simp
  show ?thesis using h1 h2 n a b c d by simp
qed

section \<open>The report\<close>

lemma reporte_bucle_eq:
  "reporte_bucle ps (b, v) =
     (b @ filter (\<lambda>p. cantidad p < STOCK_MINIMO) ps,
      v + (\<Sum>p\<leftarrow>ps. float_of_int (cantidad p) * precio p))"
  by (induction ps arbitrary: b v) (simp_all add: Let_def add.assoc)

text \<open>
  Claim C7. One call of \<^verbatim>\<open>generar_reporte\<close> reads the catalog once and returns both
  reports from that list: the products of it with a quantity strictly below 5, in
  the order read, and the sum over it of quantity times price.
\<close>

theorem reporte_de_una_lectura:
  assumes "coleccion_productos s = Some productos"
  shows "generar_reporte s =
           Inr (filter (\<lambda>p. cantidad p < 5) productos,
                (\<Sum>p\<leftarrow>productos. float_of_int (cantidad p) * precio p))"
  using assms by (simp add: generar_reporte_def reporte_bucle_eq STOCK_MINIMO_def)

theorem reporte_de_una_lectura_witness:
  "coleccion_productos ejemplo_db2 = Some [ejemplo_cable, ejemplo_mouse]
   \<and> generar_reporte ejemplo_db2 = Inr ([ejemplo_mouse], Num 78)"
proof -
  have h1: "coleccion_productos ejemplo_db2 = Some [ejemplo_cable, ejemplo_mouse]"
    by (simp add: ejemplo_db2_def)
  show ?thesis
    using h1 reporte_de_una_lectura [OF h1]
    by (simp add: ejemplo_cable_def ejemplo_mouse_def)
qed

section \<open>Sequences of calls: the catalog\<close>

lemma list_all_update_one:
  "list_all Q xs \<Longrightarrow> (\<And>x. Q x \<Longrightarrow> Q (f x)) \<Longrightarrow> list_all Q (update_one P f xs)"
  by (induction xs) auto

lemma list_all_delete_one: "list_all Q xs \<Longrightarrow> list_all Q (delete_one P xs)"
  by (induction xs) auto

lemma set_campo_no_negativo:
  "campo_no_negativo c \<Longrightarrow> 0 \<le> cantidad p \<and> 0 \<le> precio p \<Longrightarrow>
   0 \<le> cantidad (set_campo c p) \<and> 0 \<le> precio (set_campo c p)"
  by (cases c) auto

lemma dollar_set_no_negativo:
  "list_all campo_no_negativo nd \<Longrightarrow> 0 \<le> cantidad p \<and> 0 \<le> precio p \<Longrightarrow>
   0 \<le> cantidad (dollar_set nd p) \<and> 0 \<le> precio (dollar_set nd p)"
  unfolding dollar_set_def
proof (induction nd arbitrary: p)
  case Nil
  then show ?case by simp
next
  case (Cons c nd)
  from Cons.prems have "0 \<le> cantidad (set_campo c p) \<and> 0 \<le> precio (set_campo c p)"
    by (simp add: set_campo_no_negativo)
  with Cons show ?case by simp
qed

lemma agregar_sin_negativos:
  assumes "db_sin_negativos s" and "es_numero pre"
    and "agregar_producto s i nom cat pre cant prov = Inr (s', d)"
  shows "db_sin_negativos s'"
  using assms
  by (auto simp: agregar_producto_def db_sin_negativos_def sin_negativos_def Let_def
      pasa_control_y_es_numero split: option.splits if_splits)

text \<open>
  The check \<^verbatim>\<open>precio < 0\<close> lets NaN through: such an addition returns, and the
  product it stores has a price that is not at least zero.
\<close>

lemma agregar_acepta_nan:
  "agregar_producto db_vacia 1 ''Mouse'' ''Accesorios'' NaN 3 ''Acme''
     = Inr (db_vacia\<lparr>coleccion_productos := Some [ejemplo_mouse\<lparr>precio := NaN\<rparr>]\<rparr>,
            ejemplo_mouse\<lparr>precio := NaN\<rparr>)
   \<and> \<not> 0 \<le> precio (ejemplo_mouse\<lparr>precio := NaN\<rparr>)"
  by (simp add: agregar_producto_def db_vacia_def ejemplo_mouse_def CATEGORIAS_def Let_def)

lemma modificar_sin_negativos:
  assumes "db_sin_negativos s" and "list_all campo_no_negativo nd"
    and "modificar_producto s i nd = Inr (s', b)"
  shows "db_sin_negativos s'"
proof -
  from assms(3) obtain ps where ps: "coleccion_productos s = Some ps"
    and s': "coleccion_productos s' = Some (update_one (por_id i) (dollar_set nd) ps)"
    by (auto simp: modificar_producto_def split: option.splits)
  from assms(1) ps have "list_all (\<lambda>p. 0 \<le> cantidad p \<and> 0 \<le> precio p) ps"
    by (simp add: db_sin_negativos_def sin_negativos_def)
  then have "list_all (\<lambda>p. 0 \<le> cantidad p \<and> 0 \<le> precio p)
               (update_one (por_id i) (dollar_set nd) ps)"
    by (rule list_all_update_one) (rule dollar_set_no_negativo [OF assms(2)])
  with s' show ?thesis
    by (simp add: db_sin_negativos_def sin_negativos_def)
qed

lemma eliminar_sin_negativos:
  assumes "db_sin_negativos s" and "eliminar_producto s i = Inr (s', b)"
  shows "db_sin_negativos s'"
  using assms
  by (auto simp: eliminar_producto_def db_sin_negativos_def sin_negativos_def
      list_all_delete_one split: option.splits)

lemma venta_sin_negativos:
  assumes "db_sin_negativos s" and "realizar_venta env s i q usr = Inr (s', t)"
  shows "db_sin_negativos s'"
proof -
  from assms(2) obtain ps prd where ps: "coleccion_productos s = Some ps"
    and prd: "find_one (por_id i) ps = Some prd" and q: "0 < q" "q \<le> cantidad prd"
    by (auto simp: realizar_venta_def Let_def split: option.splits if_splits)
  from assms(2) have s': "coleccion_productos s' =
      Some (update_one (por_id i) (\<lambda>p. p\<lparr>cantidad := cantidad prd - q\<rparr>) ps)"
    by (auto simp: realizar_venta_exito [OF ps prd q])
  from assms(1) ps have "list_all (\<lambda>p. 0 \<le> cantidad p \<and> 0 \<le> precio p) ps"
    by (simp add: db_sin_negativos_def sin_negativos_def)
  then have "list_all (\<lambda>p. 0 \<le> cantidad p \<and> 0 \<le> precio p)
               (update_one (por_id i) (\<lambda>p. p\<lparr>cantidad := cantidad prd - q\<rparr>) ps)"
    by (rule list_all_update_one) (use q in simp)
  with s' show ?thesis
    by (simp add: db_sin_negativos_def sin_negativos_def)
qed

lemma ejecutar_sin_negativos:
  assumes "db_sin_negativos s" and "datos_admitidos c" and "ejecutar c s = Inr s'"
  shows "db_sin_negativos s'"
proof (cases c)
  case (Agregar i nom cat pre cant prov)
  with assms(3) obtain d where "agregar_producto s i nom cat pre cant prov = Inr (s', d)"
    by (cases "agregar_producto s i nom cat pre cant prov") auto
  moreover from assms(2) Agregar have "es_numero pre" by simp
  ultimately show ?thesis using assms(1) by (auto intro: agregar_sin_negativos)
next
  case (Modificar i nd)
  with assms(3) obtain b where "modificar_producto s i nd = Inr (s', b)"
    by (cases "modificar_producto s i nd") auto
  moreover from assms(2) Modificar have "list_all campo_no_negativo nd" by simp
  ultimately show ?thesis using assms(1) by (auto intro: modificar_sin_negativos)
next
  case (Eliminar i)
  with assms(3) obtain b where "eliminar_producto s i = Inr (s', b)"
    by (cases "eliminar_producto s i") auto
  with assms(1) show ?thesis by (rule eliminar_sin_negativos)
next
  case (Venta env i q usr)
  with assms(3) obtain t where "realizar_venta env s i q usr = Inr (s', t)"
    by (cases "realizar_venta env s i q usr") auto
  with assms(1) show ?thesis by (rule venta_sin_negativos)
qed

lemma ejemplo_llamadas_resultado: "ejecutar_todas ejemplo_llamadas db_vacia = Inr ejemplo_db_final"
  by (simp add: ejemplo_llamadas_def ejemplo_db_final_def db_vacia_def ejemplo_mouse_def
      ejemplo_venta_def ejemplo_entorno_def ejemplo_reloj_def
      agregar_producto_def modificar_producto_def realizar_venta_def por_id_def CATEGORIAS_def
      dollar_set_def matched_count_def bson_datetime_def Let_def)

text \<open>
  Claim C3, as amended. Start from a store where no product has a negative quantity
  or price, and run any sequence of additions, modifications, removals and sales
  that all return without raising, where every addition gives a price that is a
  number and every modification gives price and quantity only values that are not
  negative. Then every product has a quantity and a price of at least zero. The
  condition on the modifications is needed: \<^verbatim>\<open>modificar_producto\<close> writes what it
  is given and checks nothing. An addition whose price is NaN is left out of the
  statement.
\<close>

theorem nunca_negativos:
  assumes "db_sin_negativos s" and "list_all datos_admitidos cs"
    and "ejecutar_todas cs s = Inr s'"
  shows "db_sin_negativos s'"
  using assms
proof (induction cs arbitrary: s)
  case Nil
  then show ?case by simp
next
  case (Cons c cs)
  from Cons.prems(3) obtain s1 where s1: "ejecutar c s = Inr s1"
    and rest: "ejecutar_todas cs s1 = Inr s'"
    by (auto split: sum.splits)
  from Cons.prems(1,2) s1 have "db_sin_negativos s1"
    by (auto intro: ejecutar_sin_negativos)
  with Cons.IH [of s1] Cons.prems(2) rest show ?case by simp
qed

theorem nunca_negativos_witness:
  "db_sin_negativos db_vacia \<and> list_all datos_admitidos ejemplo_llamadas
   \<and> ejecutar_todas ejemplo_llamadas db_vacia = Inr ejemplo_db_final
   \<and> db_sin_negativos ejemplo_db_final"
proof -
  have h1: "db_sin_negativos db_vacia"
    by (simp add: db_sin_negativos_def db_vacia_def sin_negativos_def)
  have h2: "list_all datos_admitidos ejemplo_llamadas"
    by (simp add: ejemplo_llamadas_def)
  show ?thesis
    using h1 h2 ejemplo_llamadas_resultado nunca_negativos [OF h1 h2 ejemplo_llamadas_resultado]
    by simp
qed

text \<open>
  The claim as stated fails: adding the mouse and then setting its quantity to
  \<open>- 3\<close> are two calls that return without raising, and leave a product with a
  negative quantity.
\<close>

theorem nunca_negativos_counterexample:
  "ejecutar_todas [Agregar 1 ''Mouse'' ''Accesorios'' (Num 10) 3 ''Acme'', Modificar 1 [Cantidad (- 3)]]
     db_vacia = Inr ejemplo_db_deuda
   \<and> coleccion_productos ejemplo_db_deuda = Some [ejemplo_deuda]
   \<and> cantidad ejemplo_deuda = - 3
   \<and> \<not> db_sin_negativos ejemplo_db_deuda"
  by (simp add: ejemplo_db_deuda_def ejemplo_deuda_def ejemplo_mouse_def db_vacia_def
      agregar_producto_def modificar_producto_def por_id_def CATEGORIAS_def
      dollar_set_def matched_count_def Let_def db_sin_negativos_def sin_negativos_def)

section \<open>Sequences of calls: the sale records\<close>

lemma ejecutar_ventas:
  assumes "ejecutar c s = Inr s'" and "coleccion_ventas s = Some vs"
  shows "\<exists>nuevas. coleccion_ventas s' = Some (vs @ nuevas) \<and> list_all total_coherente nuevas"
proof (cases c)
  case (Agregar i nom cat pre cant prov)
  with assms show ?thesis
    by (auto simp: agregar_producto_def Let_def split: option.splits if_splits)
next
  case (Modificar i nd)
  with assms show ?thesis
    by (auto simp: modificar_producto_def split: option.splits)
next
  case (Eliminar i)
  with assms show ?thesis
    by (auto simp: eliminar_producto_def split: option.splits)
next
  case (Venta env i q usr)
  with assms show ?thesis
    by (auto simp: realizar_venta_def Let_def total_coherente_def split: option.splits if_splits)
qed

lemma ejecutar_todas_ventas:
  "ejecutar_todas cs s = Inr s' \<Longrightarrow> coleccion_ventas s = Some vs \<Longrightarrow>
   \<exists>nuevas. coleccion_ventas s' = Some (vs @ nuevas) \<and> list_all total_coherente nuevas"
proof (induction cs arbitrary: s vs)
  case Nil
  then show ?case by simp
next
  case (Cons c cs)
  from Cons.prems(1) obtain s1 where s1: "ejecutar c s = Inr s1"
    and rest: "ejecutar_todas cs s1 = Inr s'"
    by (auto split: sum.splits)
  from ejecutar_ventas [OF s1 Cons.prems(2)] obtain n1
    where n1: "coleccion_ventas s1 = Some (vs @ n1)" "list_all total_coherente n1"
    by blast
  from Cons.IH [OF rest n1(1)] obtain n2
    where n2: "coleccion_ventas s' = Some ((vs @ n1) @ n2)" "list_all total_coherente n2"
    by blast
  from n1(2) n2 have "coleccion_ventas s' = Some (vs @ (n1 @ n2)) \<and> list_all total_coherente (n1 @ n2)"
    by simp
  then show ?case by blast
qed

lemma ejemplo_venta_resultado:
  "realizar_venta ejemplo_entorno ejemplo_db 1 2 (Some ''alice'') = Inr (ejemplo_db_vendido, Num 20)"
  by (simp add: ejemplo_db_vendido_def ejemplo_db_def ejemplo_mouse_def
      ejemplo_venta_def ejemplo_entorno_def ejemplo_reloj_def
      realizar_venta_def por_id_def bson_datetime_def Let_def)

text \<open>
  Claim C9. A sale that returns and whose record is inserted appends exactly one
  record; its unit price is the price of the product as it was read before the
  stock was written, its quantity is the quantity sold, and its total is their
  product, which is also what the call returns. And in any sequence of calls that
  return, the sales collection only grows at its end: the records present before are
  kept as they were, and every record added has its total equal to its quantity
  times its own unit price.
\<close>

theorem total_de_venta_congelado:
  "(coleccion_productos s = Some ps \<longrightarrow> find_one (por_id idp) ps = Some prd \<longrightarrow>
    coleccion_ventas s = Some vs \<longrightarrow> \<not> insert_venta_falla env \<longrightarrow>
    realizar_venta env s idp q usr = Inr (s', t) \<longrightarrow>
      (\<exists>v. coleccion_ventas s' = Some (vs @ [v])
           \<and> venta_cantidad v = q \<and> precio_unitario v = precio prd
           \<and> total v = float_of_int (venta_cantidad v) * precio_unitario v \<and> total v = t))
   \<and> (ejecutar_todas cs s = Inr s'' \<longrightarrow> coleccion_ventas s = Some vs \<longrightarrow>
        (\<exists>nuevas. coleccion_ventas s'' = Some (vs @ nuevas) \<and> list_all total_coherente nuevas))"
proof (intro conjI impI)
  assume a: "coleccion_productos s = Some ps" "find_one (por_id idp) ps = Some prd"
    "coleccion_ventas s = Some vs" "\<not> insert_venta_falla env"
    "realizar_venta env s idp q usr = Inr (s', t)"
  then show "\<exists>v. coleccion_ventas s' = Some (vs @ [v])
           \<and> venta_cantidad v = q \<and> precio_unitario v = precio prd
           \<and> total v = float_of_int (venta_cantidad v) * precio_unitario v \<and> total v = t"
    by (auto simp: realizar_venta_def Let_def split: if_splits)
next
  assume "ejecutar_todas cs s = Inr s''" "coleccion_ventas s = Some vs"
  then show "\<exists>nuevas. coleccion_ventas s'' = Some (vs @ nuevas) \<and> list_all total_coherente nuevas"
    by (rule ejecutar_todas_ventas)
qed

theorem total_de_venta_congelado_witness:
  "coleccion_productos ejemplo_db = Some [ejemplo_mouse]
   \<and> find_one (por_id 1) [ejemplo_mouse] = Some ejemplo_mouse
   \<and> coleccion_ventas ejemplo_db = Some []
   \<and> \<not> insert_venta_falla ejemplo_entorno
   \<and> realizar_venta ejemplo_entorno ejemplo_db 1 2 (Some ''alice'') = Inr (ejemplo_db_vendido, Num 20)
   \<and> (\<exists>v. coleccion_ventas ejemplo_db_vendido = Some [v]
           \<and> venta_cantidad v = 2 \<and> precio_unitario v = precio ejemplo_mouse
           \<and> total v = float_of_int (venta_cantidad v) * precio_unitario v \<and> total v = Num 20)
   \<and> ejecutar_todas ejemplo_llamadas db_vacia = Inr ejemplo_db_final
   \<and> coleccion_ventas db_vacia = Some []
   \<and> (\<exists>nuevas. coleccion_ventas ejemplo_db_final = Some nuevas \<and> list_all total_coherente nuevas)"
proof -
  have h1: "coleccion_productos ejemplo_db = Some [ejemplo_mouse]"
    and h3: "coleccion_ventas ejemplo_db = Some []"
    by (simp_all add: ejemplo_db_def)
  have h2: "find_one (por_id 1) [ejemplo_mouse] = Some ejemplo_mouse"
    by (simp add: por_id_def ejemplo_mouse_def)
  have h4: "\<not> insert_venta_falla ejemplo_entorno"
    by (simp add: ejemplo_entorno_def)
  have h5: "coleccion_ventas db_vacia = Some []"
    by (simp add: db_vacia_def)
  note una = total_de_venta_congelado [where s = ejemplo_db and ps = "[ejemplo_mouse]"
      and idp = 1 and prd = ejemplo_mouse and vs = "[]" and env = ejemplo_entorno and q = 2
      and usr = "Some ''alice''" and s' = ejemplo_db_vendido and t = "Num 20", THEN conjunct1]
  note varias = total_de_venta_congelado [where s = db_vacia and vs = "[]"
      and cs = ejemplo_llamadas and s'' = ejemplo_db_final, THEN conjunct2]
  from una h1 h2 h3 h4 ejemplo_venta_resultado
  have a: "\<exists>v. coleccion_ventas ejemplo_db_vendido = Some [v]
           \<and> venta_cantidad v = 2 \<and> precio_unitario v = precio ejemplo_mouse
           \<and> total v = float_of_int (venta_cantidad v) * precio_unitario v \<and> total v = Num 20"
    by simp
  from varias h5 ejemplo_llamadas_resultado
  have b: "\<exists>nuevas. coleccion_ventas ejemplo_db_final = Some nuevas \<and> list_all total_coherente nuevas"
    by simp
  show ?thesis
    using h1 h2 h3 h4 h5 a b ejemplo_venta_resultado ejemplo_llamadas_resultado by simp
qed

section \<open>Search by name and by supplier\<close>

text \<open>
  With an engine that accepts the value and finds it exactly in the texts that
  contain it as a substring up to case, the search by name, and likewise by
  supplier, returns those products and no other, by ascending identifier.
\<close>

lemma busqueda_con_motor_de_subcadenas:
  assumes "coleccion_productos s = Some ps" and "motor v = Some (contiene_sin_caja v)"
  shows "(\<exists>r. buscar_producto motor s ''nombre'' v = Inr r
             \<and> mset r = mset (filter (\<lambda>p. contiene_sin_caja v (nombre p)) ps)
             \<and> sorted (map id_producto r))
         \<and> (\<exists>r. buscar_producto motor s ''proveedor'' v = Inr r
             \<and> mset r = mset (filter (\<lambda>p. contiene_sin_caja v (proveedor p)) ps)
             \<and> sorted (map id_producto r))"
  using assms by (simp add: buscar_producto_def find_sort_id_def)

text \<open>The example engine is such an engine on the values without operator characters.\<close>

lemma es_operador_punto: "es_operador (CHR ''.'')"
  by (simp add: es_operador_def)

lemma coincide_aqui_literal:
  "\<not> list_ex es_operador v \<Longrightarrow>
   coincide_aqui v t = prefix (map minuscula v) (map minuscula t)"
proof (induction v t rule: coincide_aqui.induct)
  case (1 t)
  then show ?case by simp
next
  case (2 c cs)
  then show ?case by simp
next
  case (3 c cs x xs)
  from "3.prems" have "c \<noteq> CHR ''.''"
    using es_operador_punto by auto
  with 3 show ?case by simp
qed

lemma regex_i_literal:
  assumes "patron_literal v"
  shows "regex_i v t = contiene_sin_caja v t"
proof (induction t)
  case Nil
  show ?case
    using assms by (cases v) (simp_all add: contiene_sin_caja_def)
next
  case (Cons x xs)
  have "coincide_aqui v (x # xs) = prefix (map minuscula v) (map minuscula (x # xs))"
    using assms unfolding patron_literal_def by (rule coincide_aqui_literal)
  with Cons show ?case
    by (simp add: contiene_sin_caja_def sublist_Cons_right)
qed

lemma motor_ejemplo_literal:
  assumes "patron_literal v"
  shows "motor_ejemplo v = Some (contiene_sin_caja v)"
proof -
  have "\<not> list_ex (\<lambda>c. es_operador c \<and> c \<noteq> CHR ''.'') v"
    using assms by (auto simp: patron_literal_def list_ex_iff)
  moreover have "regex_i v = contiene_sin_caja v"
    by (rule ext) (rule regex_i_literal [OF assms])
  ultimately show ?thesis
    by (simp add: motor_ejemplo_def)
qed

lemma minuscula_ejemplos:
  "minuscula (CHR ''M'') = CHR ''m''" "minuscula (CHR ''o'') = CHR ''o''"
  "minuscula (CHR ''u'') = CHR ''u''" "minuscula (CHR ''s'') = CHR ''s''"
  "minuscula (CHR ''e'') = CHR ''e''" "minuscula (CHR ''.'') = CHR ''.''"
  by (simp_all add: minuscula_def ord_def Let_def) code_simp+

text \<open>
  Claim C6 at an input where the source departs from it. The catalog holds the
  mouse alone, and the search by name is asked for the value "." . The source hands
  the value to the store as a pattern, unescaped; for any engine that accepts the
  pattern "." and finds a match of it in "Mouse", as an engine of regular
  expressions does, the search returns the mouse, whose name does not contain a dot.
\<close>

theorem busqueda_de_un_punto:
  assumes "motor ''.'' = Some m" and "m ''Mouse''"
  shows "buscar_producto motor ejemplo_db ''nombre'' ''.'' = Inr [ejemplo_mouse]
         \<and> \<not> contiene_sin_caja ''.'' (nombre ejemplo_mouse)"
  using assms
  by (simp add: buscar_producto_def find_sort_id_def ejemplo_db_def ejemplo_mouse_def
      contiene_sin_caja_def minuscula_ejemplos sublist_Cons_right)

theorem busqueda_de_un_punto_witness:
  "motor_ejemplo ''.'' = Some (regex_i ''.'') \<and> regex_i ''.'' ''Mouse''
   \<and> buscar_producto motor_ejemplo ejemplo_db ''nombre'' ''.'' = Inr [ejemplo_mouse]
   \<and> \<not> contiene_sin_caja ''.'' (nombre ejemplo_mouse)"
proof -
  have h1: "motor_ejemplo ''.'' = Some (regex_i ''.'')"
    by (simp add: motor_ejemplo_def)
  have h2: "regex_i ''.'' ''Mouse''"
    by simp
  show ?thesis
    using h1 h2 busqueda_de_un_punto [of motor_ejemplo "regex_i ''.''", OF h1 h2] by simp
qed

section \<open>The sales history\<close>

text \<open>
  What \<^verbatim>\<open>obtener_ventas\<close> returns: the sales of the user given (all the sales when
  none or the empty one is given) whose date lies between the two bounds given, both
  included and both taken to the millisecond, by descending date.
\<close>

lemma obtener_ventas_filtra_y_ordena:
  assumes "coleccion_ventas s = Some vs"
  shows "\<exists>r. obtener_ventas s fu desde hasta = Inr r
           \<and> set r = {v \<in> set vs.
                 (case fu of None \<Rightarrow> True | Some u \<Rightarrow> u = [] \<or> usuario v = Some u)
                 \<and> (case desde of None \<Rightarrow> True | Some d \<Rightarrow> dt_le (bson_datetime d) (fecha v))
                 \<and> (case hasta of None \<Rightarrow> True | Some d \<Rightarrow> dt_le (fecha v) (bson_datetime d))}
           \<and> sorted (rev (map (\<lambda>v. dt_key (fecha v)) r))"
  using assms
  by (auto simp: obtener_ventas_def find_sort_fecha_desc_def coincide_venta_def Let_def
      rev_map split: option.splits)

text \<open>
  Claim C8 at an input where the source departs from it. Alice buys two mice on
  31 January 2025 at 23:59:59 and half a second; the store keeps the date to the
  millisecond. The history asked for with the upper date "2025-01-31" and no other
  filter is empty, although the sale was made on that day: \<^verbatim>\<open>cargar_ventas\<close> moves the
  upper bound to 23:59:59 and leaves its microseconds at zero, so the last second of
  the day is cut after its first instant. Without the upper date the sale is listed.
\<close>

theorem historial_pierde_ultimo_segundo:
  "realizar_venta ejemplo_entorno ejemplo_db 1 2 (Some ''alice'') = Inr (ejemplo_db_vendido, Num 20)
   \<and> coleccion_ventas ejemplo_db_vendido = Some [ejemplo_venta]
   \<and> year (fecha ejemplo_venta) = 2025 \<and> month (fecha ejemplo_venta) = 1
   \<and> day (fecha ejemplo_venta) = 31
   \<and> cargar_ventas ejemplo_db_vendido [] None (Some (2025, 1, 31)) = Inr []
   \<and> cargar_ventas ejemplo_db_vendido [] None None = Inr [ejemplo_venta]"
  by (simp add: ejemplo_db_vendido_def ejemplo_db_def ejemplo_mouse_def
      ejemplo_venta_def ejemplo_entorno_def ejemplo_reloj_def
      realizar_venta_def por_id_def bson_datetime_def Let_def
      cargar_ventas_def obtener_ventas_def find_sort_fecha_desc_def coincide_venta_def
      dt_le_def dt_key_def strip_def)

end
